theory Spec2Isabelle
  imports Main "HOL-Library.AList" "HOL-Library.Sublist"
begin

section \<open>The CloudWatch log shipper of \<^verbatim>\<open>src/logger.js\<close>\<close>

text \<open>
  The module keeps one piece of process-wide state, \<^verbatim>\<open>sequenceToken\<close>, and talks to
  the remote log store through the AWS SDK client \<^verbatim>\<open>cloudwatchlogs\<close>. The embedding
  passes the module state explicitly, takes the client as a record of operations over an
  arbitrary store state, and turns every rejected promise and thrown exception into a
  value of a sum type. Each \<^verbatim>\<open>async\<close> function is run from call to settlement in one
  step; interleavings of several pending calls are outside the model.
\<close>

subsection \<open>JavaScript values\<close>

text \<open>
  The values that reach the logger: \<^verbatim>\<open>undefined\<close>, \<^verbatim>\<open>null\<close>, booleans, (integral)
  numbers, strings, BigInts, arrays and plain objects. The values are trees: an object
  that refers to itself has no counterpart here. An object is the list of its own enumerable
  properties in insertion order; a key is looked up with \<^const>\<open>map_of\<close>.
\<close>

datatype jsval =
    JUndefined
  | JNull
  | JBool bool
  | JNum int
  | JStr string
  | JBigInt int
  | JArr "jsval list"
  | JObj "(string \<times> jsval) list"

datatype js_error =
    TypeError string
  | AwsError string

fun digit :: "nat \<Rightarrow> char" where
  "digit n = ''0123456789'' ! n"

fun decimal :: "nat \<Rightarrow> string" where
  "decimal n = (if n < 10 then [digit n] else decimal (n div 10) @ [digit (n mod 10)])"

declare decimal.simps [simp del]

text \<open>
  The own enumerable string-keyed properties of a value, which is what the spread
  \<^verbatim>\<open>...extra\<close> copies: the properties of an object, the indices of an array or of a
  string, nothing for \<^verbatim>\<open>undefined\<close>, \<^verbatim>\<open>null\<close>, booleans, numbers and BigInts.
\<close>

fun ownProps :: "jsval \<Rightarrow> (string \<times> jsval) list" where
  "ownProps (JObj ps) = ps"
| "ownProps (JArr xs) = zip (map decimal [0 ..< length xs]) xs"
| "ownProps (JStr s) = zip (map decimal [0 ..< length s]) (map (\<lambda>c. JStr [c]) s)"
| "ownProps _ = []"

text \<open>
  Reading \<^verbatim>\<open>v.k\<close>: a \<^verbatim>\<open>TypeError\<close> on \<^verbatim>\<open>undefined\<close> and \<^verbatim>\<open>null\<close>, the own property
  otherwise, \<^verbatim>\<open>undefined\<close> when there is none (inherited methods are not modelled).
\<close>

fun lookupProp :: "jsval \<Rightarrow> string \<Rightarrow> jsval" where
  "lookupProp v k =
     (case map_of (ownProps v) k of
        Some x \<Rightarrow> x
      | None \<Rightarrow>
          (if k = ''length'' then
             (case v of
                JArr xs \<Rightarrow> JNum (int (length xs))
              | JStr s \<Rightarrow> JNum (int (length s))
              | _ \<Rightarrow> JUndefined)
           else JUndefined))"

fun getMember :: "jsval \<Rightarrow> string \<Rightarrow> js_error + jsval" where
  "getMember JUndefined k =
     Inl (TypeError (''Cannot read properties of undefined (reading ''
                     @ [CHR 0x27] @ k @ [CHR 0x27] @ '')''))"
| "getMember JNull k =
     Inl (TypeError (''Cannot read properties of null (reading ''
                     @ [CHR 0x27] @ k @ [CHR 0x27] @ '')''))"
| "getMember v k = Inr (lookupProp v k)"

text \<open>Optional chaining \<^verbatim>\<open>v?.k\<close>.\<close>

fun getMemberOpt :: "jsval \<Rightarrow> string \<Rightarrow> jsval" where
  "getMemberOpt JUndefined k = JUndefined"
| "getMemberOpt JNull k = JUndefined"
| "getMemberOpt v k = lookupProp v k"

text \<open>Truthiness, as \<^verbatim>\<open>if (error)\<close> tests it.\<close>

fun truthy :: "jsval \<Rightarrow> bool" where
  "truthy JUndefined = False"
| "truthy JNull = False"
| "truthy (JBool b) = b"
| "truthy (JNum n) = (n \<noteq> 0)"
| "truthy (JStr s) = (s \<noteq> [])"
| "truthy (JBigInt n) = (n \<noteq> 0)"
| "truthy (JArr _) = True"
| "truthy (JObj _) = True"

text \<open>A parameter default \<^verbatim>\<open>p = {}\<close> replaces exactly the argument \<^verbatim>\<open>undefined\<close>.\<close>

fun defaultObj :: "jsval \<Rightarrow> jsval" where
  "defaultObj JUndefined = JObj []"
| "defaultObj v = v"

text \<open>
  Defining a property of an object literal, or assigning to one: an existing key keeps its
  place and takes the new value, a new key goes to the end. (JavaScript enumerates keys
  that are array indices before the others; the list here stays in insertion order, and
  the properties below read an object by key only.)
\<close>

definition setProp :: "(string \<times> jsval) list \<Rightarrow> string \<Rightarrow> jsval \<Rightarrow> (string \<times> jsval) list" where
  "setProp ps k v = AList.update k v ps"

definition spread :: "(string \<times> jsval) list \<Rightarrow> jsval \<Rightarrow> (string \<times> jsval) list" where
  "spread ps extra = foldl (\<lambda>acc (k, v). setProp acc k v) ps (ownProps extra)"

subsection \<open>Event construction\<close>

text \<open>
  \<^verbatim>\<open>function gerarLog(level, message, rota, extra) {
      return { level: level, message, route: rota, ...extra };
  }\<close>
\<close>

definition gerarLog :: "jsval \<Rightarrow> jsval \<Rightarrow> jsval \<Rightarrow> jsval \<Rightarrow> jsval" where
  "gerarLog level message rota extra =
     JObj (spread [(''level'', level), (''message'', message), (''route'', rota)] extra)"

text \<open>
  The \<^verbatim>\<open>log\<close> object that \<^verbatim>\<open>logInfo(message, req, extra = {})\<close> hands to
  \<^verbatim>\<open>enviarLogCloudWatch\<close>; \<^verbatim>\<open>req.originalUrl\<close> is read without any guard.
\<close>

definition logInfo_log :: "jsval \<Rightarrow> jsval \<Rightarrow> jsval \<Rightarrow> js_error + jsval" where
  "logInfo_log message req extra =
     (case getMember req ''originalUrl'' of
        Inl e \<Rightarrow> Inl e
      | Inr url \<Rightarrow> Inr (gerarLog (JStr ''info'') message url (defaultObj extra)))"

text \<open>
  The \<^verbatim>\<open>log\<close> object of \<^verbatim>\<open>logError(message, req, error = {}, extra = {})\<close>:
  \<^verbatim>\<open>const url = req !== null ? req?.originalUrl : '';
  let log = gerarLog('error', message, url, extra);
  if (error) { log.error = {error} }\<close>
\<close>

definition logError_url :: "jsval \<Rightarrow> jsval" where
  "logError_url req = (if req \<noteq> JNull then getMemberOpt req ''originalUrl'' else JStr '''')"

fun assignProp :: "jsval \<Rightarrow> string \<Rightarrow> jsval \<Rightarrow> jsval" where
  "assignProp (JObj ps) k v = JObj (setProp ps k v)"
| "assignProp obj k v = obj"

definition logError_log :: "jsval \<Rightarrow> jsval \<Rightarrow> jsval \<Rightarrow> jsval \<Rightarrow> jsval" where
  "logError_log message req error extra =
     (let err = defaultObj error;
          url = logError_url req;
          log = gerarLog (JStr ''error'') message url (defaultObj extra)
      in if truthy err then assignProp log ''error'' (JObj [(''error'', err)]) else log)"

text \<open>Reading a field of an event: \<^verbatim>\<open>undefined\<close> when the event has no such key.\<close>

definition field :: "jsval \<Rightarrow> string \<Rightarrow> jsval" where
  "field ev k = lookupProp ev k"

subsection \<open>The remote store, the runtime and the module state\<close>

text \<open>
  What the SDK hands back: a described group and stream, and the response of an append.
  The two token members are JavaScript values, read by the code as they come: a string,
  \<^verbatim>\<open>undefined\<close> when the service left the member out, \<^verbatim>\<open>null\<close> when it sent one.
\<close>

record log_group =
  logGroupName :: string

record log_stream =
  logStreamName :: string
  uploadSequenceToken :: jsval

record put_response =
  nextSequenceToken :: jsval

record log_event =
  event_message :: string
  event_timestamp :: int

record put_params =
  params_logEvents :: "log_event list"
  params_logGroupName :: string
  params_logStreamName :: string
  params_sequenceToken :: jsval

text \<open>
  The client \<^verbatim>\<open>cloudwatchlogs\<close>: each operation takes its request and the state of the
  store, and settles with an error (a rejected promise) or a response, and the next state
  of the store.
\<close>

record 's cloudwatchlogs =
  describeLogGroups :: "string \<Rightarrow> 's \<Rightarrow> (js_error + log_group list) \<times> 's"
  createLogGroup :: "string \<Rightarrow> 's \<Rightarrow> (js_error + unit) \<times> 's"
  describeLogStreams :: "string \<Rightarrow> string \<Rightarrow> 's \<Rightarrow> (js_error + log_stream list) \<times> 's"
  createLogStream :: "string \<Rightarrow> string \<Rightarrow> 's \<Rightarrow> (js_error + unit) \<times> 's"
  putLogEvents :: "put_params \<Rightarrow> 's \<Rightarrow> (js_error + put_response) \<times> 's"

text \<open>
  The environment of the process: the two configured names, the text that
  \<^verbatim>\<open>JSON.stringify\<close> returns for a value it can serialise, and the clock, whose
  \<open>n\<close>-th reading by this module is \<open>Date_now env n\<close>.
\<close>

record env =
  LOG_GROUP_NAME :: string
  LOG_STREAM_NAME :: string
  json_text :: "jsval \<Rightarrow> string"
  Date_now :: "nat \<Rightarrow> int"
  toISOString :: "int \<Rightarrow> string"

datatype console_entry =
    ConsoleLog string
  | ConsoleError string js_error

text \<open>
  The module state: \<^verbatim>\<open>let sequenceToken = null\<close>, the lines written to the console, and
  the number of clock readings made so far.
\<close>

record logger_state =
  sequenceToken :: jsval
  console :: "console_entry list"
  clockReads :: nat

definition initial :: logger_state where
  "initial = \<lparr>sequenceToken = JNull, console = [], clockReads = 0\<rparr>"

text \<open>
  \<^verbatim>\<open>JSON.stringify(v)\<close> throws a \<^verbatim>\<open>TypeError\<close> when it meets a BigInt anywhere in
  \<open>v\<close> (as it does on an object that refers to itself), and returns the text otherwise.
\<close>

fun serialisable :: "jsval \<Rightarrow> bool" where
  "serialisable (JBigInt n) = False"
| "serialisable (JArr xs) = list_all serialisable xs"
| "serialisable (JObj ps) = list_all serialisable (map snd ps)"
| "serialisable v = True"

definition JSON_stringify :: "env \<Rightarrow> jsval \<Rightarrow> js_error + string" where
  "JSON_stringify env v =
     (if serialisable v then Inr (json_text env v)
      else Inl (TypeError ''Do not know how to serialize a BigInt''))"

subsection \<open>Provisioning\<close>

definition setupFailed :: "logger_state \<Rightarrow> js_error \<Rightarrow> logger_state" where
  "setupFailed st err =
     st\<lparr>console := console st @ [ConsoleError ''Erro ao configurar CloudWatch:'' err]\<rparr>"

text \<open>
  \<^verbatim>\<open>ensureCloudWatchSetup\<close>: every rejection inside the \<^verbatim>\<open>try\<close> ends in the \<^verbatim>\<open>catch\<close>,
  which writes to the console; the promise of the function always resolves.
\<close>

definition ensureCloudWatchSetup ::
  "'s cloudwatchlogs \<Rightarrow> env \<Rightarrow> logger_state \<times> 's \<Rightarrow> logger_state \<times> 's" where
  "ensureCloudWatchSetup cw env w =
     (let st = fst w; s = snd w in
      case describeLogGroups cw (LOG_GROUP_NAME env) s of
        (Inl err, s1) \<Rightarrow> (setupFailed st err, s1)
      | (Inr groups, s1) \<Rightarrow>
          (case (if find (\<lambda>g. logGroupName g = LOG_GROUP_NAME env) groups = None
                 then createLogGroup cw (LOG_GROUP_NAME env) s1
                 else (Inr (), s1)) of
             (Inl err, s2) \<Rightarrow> (setupFailed st err, s2)
           | (Inr _, s2) \<Rightarrow>
               (case describeLogStreams cw (LOG_GROUP_NAME env) (LOG_STREAM_NAME env) s2 of
                  (Inl err, s3) \<Rightarrow> (setupFailed st err, s3)
                | (Inr streams, s3) \<Rightarrow>
                    (case streams of
                       [] \<Rightarrow>
                         (case createLogStream cw (LOG_GROUP_NAME env) (LOG_STREAM_NAME env) s3 of
                            (Inl err, s4) \<Rightarrow> (setupFailed st err, s4)
                          | (Inr _, s4) \<Rightarrow> (st, s4))
                     | stream0 # _ \<Rightarrow>
                         (st\<lparr>sequenceToken := uploadSequenceToken stream0\<rparr>, s3)))))"

subsection \<open>The append operation\<close>

text \<open>
  The request that \<^verbatim>\<open>enviarLogCloudWatch(message)\<close> builds: one event, the two names,
  and the module's token as it is (\<^verbatim>\<open>null\<close> included). \<^verbatim>\<open>JSON.stringify(message)\<close>
  is evaluated first and may throw; \<^verbatim>\<open>Date.now()\<close>, the second clock reading of the
  call (the first is for the console line), is read after it.
\<close>

definition buildParams :: "env \<Rightarrow> logger_state \<Rightarrow> jsval \<Rightarrow> js_error + put_params" where
  "buildParams env st message =
     (case JSON_stringify env message of
        Inl err \<Rightarrow> Inl err
      | Inr text \<Rightarrow>
          Inr \<lparr>params_logEvents =
                 [\<lparr>event_message = text,
                   event_timestamp = Date_now env (clockReads st + 1)\<rparr>],
               params_logGroupName = LOG_GROUP_NAME env,
               params_logStreamName = LOG_STREAM_NAME env,
               params_sequenceToken = sequenceToken st\<rparr>)"

text \<open>
  \<^verbatim>\<open>enviarLogCloudWatch\<close>: the console line and the request are made before the \<^verbatim>\<open>try\<close>,
  so an exception of \<^verbatim>\<open>JSON.stringify\<close> rejects the call; a rejection of
  \<^verbatim>\<open>putLogEvents\<close> is caught and written to the console.
\<close>

definition enviarLogCloudWatch ::
  "'s cloudwatchlogs \<Rightarrow> env \<Rightarrow> jsval \<Rightarrow> logger_state \<times> 's \<Rightarrow> (js_error + unit) \<times> logger_state \<times> 's" where
  "enviarLogCloudWatch cw env message w =
     (let st = fst w; s = snd w;
          line1 = ConsoleLog (''Enviando log '' @ toISOString env (Date_now env (clockReads st)))
      in case buildParams env st message of
           Inl err \<Rightarrow>
             (Inl err, st\<lparr>console := console st @ [line1], clockReads := clockReads st + 1\<rparr>, s)
         | Inr params \<Rightarrow>
             (case putLogEvents cw params s of
                (Inr response, s') \<Rightarrow>
                  (Inr (),
                   st\<lparr>sequenceToken := nextSequenceToken response,
                      console := console st @
                        [line1,
                         ConsoleLog (''Log enviado com sucesso ''
                                     @ toISOString env (Date_now env (clockReads st + 2)))],
                      clockReads := clockReads st + 3\<rparr>,
                   s')
              | (Inl err, s') \<Rightarrow>
                  (Inr (),
                   st\<lparr>console := console st @ [line1, ConsoleError ''Erro ao enviar log:'' err],
                      clockReads := clockReads st + 2\<rparr>,
                   s')))"

subsection \<open>The exported operations\<close>

definition logInfo ::
  "'s cloudwatchlogs \<Rightarrow> env \<Rightarrow> jsval \<Rightarrow> jsval \<Rightarrow> jsval \<Rightarrow> logger_state \<times> 's
     \<Rightarrow> (js_error + unit) \<times> logger_state \<times> 's" where
  "logInfo cw env message req extra w =
     (case logInfo_log message req extra of
        Inl e \<Rightarrow> (Inl e, w)
      | Inr log \<Rightarrow> enviarLogCloudWatch cw env log w)"

definition logError ::
  "'s cloudwatchlogs \<Rightarrow> env \<Rightarrow> jsval \<Rightarrow> jsval \<Rightarrow> jsval \<Rightarrow> jsval \<Rightarrow> logger_state \<times> 's
     \<Rightarrow> (js_error + unit) \<times> logger_state \<times> 's" where
  "logError cw env message req error extra w =
     enviarLogCloudWatch cw env (logError_log message req error extra) w"

subsection \<open>A remote store\<close>

text \<open>
  Modelled from the spec: the remote structured-log store, a service outside the
  repository that the SDK client reaches. The spec's section on external interfaces gives
  its five operations and its one rule: an append is rejected when the token it presents
  is not the one the store expects for that stream, and a stream that was never appended
  to expects none. The store here keeps, for every stream, the number of accepted appends
  and the events delivered; the token it expects after the \<open>n\<close>-th append is the decimal
  numeral of \<open>n\<close>. It also records every append request it receives, accepted or not.
\<close>

record stream_data =
  appends :: nat
  delivered :: "log_event list"

record store =
  groups :: "(string \<times> (string \<times> stream_data) list) list"
  received :: "put_params list"

definition expectedToken :: "stream_data \<Rightarrow> string option" where
  "expectedToken d = (if appends d = 0 then None else Some (decimal (appends d)))"

text \<open>The token member as the store's responses carry it: left out when there is none.\<close>

fun storeMember :: "string option \<Rightarrow> jsval" where
  "storeMember None = JUndefined"
| "storeMember (Some t) = JStr t"

fun tokenMatches :: "jsval \<Rightarrow> string option \<Rightarrow> bool" where
  "tokenMatches JNull None = True"
| "tokenMatches JUndefined None = True"
| "tokenMatches (JStr t) (Some e) = (t = e)"
| "tokenMatches _ _ = False"

definition findStream :: "store \<Rightarrow> string \<Rightarrow> string \<Rightarrow> stream_data option" where
  "findStream s g n = (case map_of (groups s) g of None \<Rightarrow> None | Some ss \<Rightarrow> map_of ss n)"

definition store_describeLogGroups :: "string \<Rightarrow> store \<Rightarrow> (js_error + log_group list) \<times> store" where
  "store_describeLogGroups pre s =
     (Inr (map (\<lambda>(g, _). \<lparr>logGroupName = g\<rparr>) (filter (\<lambda>(g, _). prefix pre g) (groups s))), s)"

definition store_createLogGroup :: "string \<Rightarrow> store \<Rightarrow> (js_error + unit) \<times> store" where
  "store_createLogGroup g s =
     (case map_of (groups s) g of
        Some _ \<Rightarrow> (Inl (AwsError ''ResourceAlreadyExistsException''), s)
      | None \<Rightarrow> (Inr (), s\<lparr>groups := groups s @ [(g, [])]\<rparr>))"

definition store_describeLogStreams ::
  "string \<Rightarrow> string \<Rightarrow> store \<Rightarrow> (js_error + log_stream list) \<times> store" where
  "store_describeLogStreams g pre s =
     (case map_of (groups s) g of
        None \<Rightarrow> (Inl (AwsError ''ResourceNotFoundException''), s)
      | Some ss \<Rightarrow>
          (Inr (map (\<lambda>(n, d). \<lparr>logStreamName = n, uploadSequenceToken = storeMember (expectedToken d)\<rparr>)
                    (filter (\<lambda>(n, _). prefix pre n) ss)), s))"

definition store_createLogStream :: "string \<Rightarrow> string \<Rightarrow> store \<Rightarrow> (js_error + unit) \<times> store" where
  "store_createLogStream g n s =
     (case map_of (groups s) g of
        None \<Rightarrow> (Inl (AwsError ''ResourceNotFoundException''), s)
      | Some ss \<Rightarrow>
          (case map_of ss n of
             Some _ \<Rightarrow> (Inl (AwsError ''ResourceAlreadyExistsException''), s)
           | None \<Rightarrow>
               (Inr (), s\<lparr>groups := AList.update g (ss @ [(n, \<lparr>appends = 0, delivered = []\<rparr>)])
                                       (groups s)\<rparr>)))"

definition store_putLogEvents :: "put_params \<Rightarrow> store \<Rightarrow> (js_error + put_response) \<times> store" where
  "store_putLogEvents p s0 =
     (let s = s0\<lparr>received := received s0 @ [p]\<rparr> in
      case map_of (groups s) (params_logGroupName p) of
        None \<Rightarrow> (Inl (AwsError ''ResourceNotFoundException''), s)
      | Some ss \<Rightarrow>
          (case map_of ss (params_logStreamName p) of
             None \<Rightarrow> (Inl (AwsError ''ResourceNotFoundException''), s)
           | Some d \<Rightarrow>
               if tokenMatches (params_sequenceToken p) (expectedToken d) then
                 (let d' = \<lparr>appends = Suc (appends d),
                            delivered = delivered d @ params_logEvents p\<rparr>
                  in (Inr \<lparr>nextSequenceToken = storeMember (expectedToken d')\<rparr>,
                      s\<lparr>groups := AList.update (params_logGroupName p)
                                     (AList.update (params_logStreamName p) d' ss) (groups s)\<rparr>))
               else (Inl (AwsError ''InvalidSequenceTokenException''), s)))"

definition remote :: "store cloudwatchlogs" where
  "remote =
     \<lparr>describeLogGroups = store_describeLogGroups,
      createLogGroup = store_createLogGroup,
      describeLogStreams = store_describeLogStreams,
      createLogStream = store_createLogStream,
      putLogEvents = store_putLogEvents\<rparr>"

text \<open>
  The append is stale at the store: the configured stream exists and the token held by
  the module is not the one the store expects.
\<close>

definition stale :: "env \<Rightarrow> logger_state \<Rightarrow> store \<Rightarrow> bool" where
  "stale env st s =
     (case findStream s (LOG_GROUP_NAME env) (LOG_STREAM_NAME env) of
        None \<Rightarrow> False
      | Some d \<Rightarrow> \<not> tokenMatches (sequenceToken st) (expectedToken d))"

text \<open>The configured stream exists at the store and was never appended to.\<close>

definition brandNew :: "env \<Rightarrow> store \<Rightarrow> bool" where
  "brandNew env s =
     (case findStream s (LOG_GROUP_NAME env) (LOG_STREAM_NAME env) of
        None \<Rightarrow> False
      | Some d \<Rightarrow> appends d = 0)"

text \<open>The events delivered to the configured stream.\<close>

definition deliveredTo :: "env \<Rightarrow> store \<Rightarrow> log_event list" where
  "deliveredTo env s =
     (case findStream s (LOG_GROUP_NAME env) (LOG_STREAM_NAME env) of
        None \<Rightarrow> []
      | Some d \<Rightarrow> delivered d)"

subsection \<open>Sequences of operations\<close>




subsection \<open>Concrete inputs\<close>

text \<open>A small environment, three stores and two module states to run the definitions on.\<close>

definition env0 :: env where
  "env0 =
     \<lparr>LOG_GROUP_NAME = ''api'',
      LOG_STREAM_NAME = ''app-logs'',
      json_text = (\<lambda>v. ''{}''),
      Date_now = (\<lambda>n. 1700000000000 + int n),
      toISOString = (\<lambda>t. ''2023-11-14T22:13:20.000Z'')\<rparr>"


text \<open>The configured stream exists and has taken two appends.\<close>

definition storeStale :: store where
  "storeStale =
     \<lparr>groups = [(''api'', [(''app-logs'', \<lparr>appends = 2, delivered = []\<rparr>)])],
      received = []\<rparr>"

text \<open>The configured stream exists and has taken none.\<close>

definition storeNew :: store where
  "storeNew =
     \<lparr>groups = [(''api'', [(''app-logs'', \<lparr>appends = 0, delivered = []\<rparr>)])],
      received = []\<rparr>"

text \<open>
  The group holds one stream, \<^verbatim>\<open>app-logs-2\<close>, whose name starts with the configured
  name \<^verbatim>\<open>app-logs\<close> and is not that name.
\<close>

definition storeOther :: store where
  "storeOther =
     \<lparr>groups = [(''api'', [(''app-logs-2'', \<lparr>appends = 1, delivered = []\<rparr>)])],
      received = []\<rparr>"

text \<open>The module holds the token \<^verbatim>\<open>"1"\<close>, and the token \<^verbatim>\<open>"2"\<close>.\<close>

definition held :: logger_state where
  "held = initial\<lparr>sequenceToken := JStr ''1''\<rparr>"


text \<open>The request of the first append of a call made in the state \<open>st\<close> under \<^const>\<open>env0\<close>.\<close>

definition request0 :: "logger_state \<Rightarrow> put_params" where
  "request0 st =
     \<lparr>params_logEvents =
        [\<lparr>event_message = ''{}'', event_timestamp = 1700000000001 + int (clockReads st)\<rparr>],
      params_logGroupName = ''api'',
      params_logStreamName = ''app-logs'',
      params_sequenceToken = sequenceToken st\<rparr>"


section \<open>Properties\<close>

subsection \<open>Auxiliary facts\<close>

lemma decimal_examples: "decimal 0 = ''0'' \<and> decimal 7 = ''7'' \<and> decimal 42 = ''42''"
  by code_simp

lemma buildParams_Inr:
  "buildParams env st message = Inr params \<Longrightarrow>
   params_logGroupName params = LOG_GROUP_NAME env
   \<and> params_logStreamName params = LOG_STREAM_NAME env
   \<and> params_sequenceToken params = sequenceToken st
   \<and> length (params_logEvents params) = 1"
  by (auto simp: buildParams_def split: sum.splits)

lemma buildParams_serialisable:
  "(\<exists>params. buildParams env st message = Inr params) = serialisable message"
  by (simp add: buildParams_def JSON_stringify_def)

lemma enviar_Inl:
  "buildParams env st message = Inr params \<Longrightarrow>
   putLogEvents cw params s = (Inl err, s') \<Longrightarrow>
   enviarLogCloudWatch cw env message (st, s) =
     (Inr (),
      st\<lparr>console := console st @
           [ConsoleLog (''Enviando log '' @ toISOString env (Date_now env (clockReads st))),
            ConsoleError ''Erro ao enviar log:'' err],
         clockReads := clockReads st + 2\<rparr>, s')"
  by (simp add: enviarLogCloudWatch_def Let_def)

lemma enviar_Inr:
  "buildParams env st message = Inr params \<Longrightarrow>
   putLogEvents cw params s = (Inr response, s') \<Longrightarrow>
   enviarLogCloudWatch cw env message (st, s) =
     (Inr (),
      st\<lparr>sequenceToken := nextSequenceToken response,
         console := console st @
           [ConsoleLog (''Enviando log '' @ toISOString env (Date_now env (clockReads st))),
            ConsoleLog (''Log enviado com sucesso ''
                        @ toISOString env (Date_now env (clockReads st + 2)))],
         clockReads := clockReads st + 3\<rparr>, s')"
  by (simp add: enviarLogCloudWatch_def Let_def)

lemma put_stale:
  "stale env st s \<Longrightarrow> buildParams env st message = Inr params \<Longrightarrow>
   putLogEvents remote params s =
     (Inl (AwsError ''InvalidSequenceTokenException''), s\<lparr>received := received s @ [params]\<rparr>)"
  using buildParams_Inr [of env st message params]
  by (auto simp: stale_def findStream_def remote_def store_putLogEvents_def
           split: option.splits)

lemma stale_received [simp]: "stale env st (s\<lparr>received := r\<rparr>) = stale env st s"
  by (simp add: stale_def findStream_def)

lemma stale_local [simp]:
  "stale env (st\<lparr>console := c, clockReads := n\<rparr>) s = stale env st s"
  by (simp add: stale_def split: option.splits)

lemma put_records:
  "received (snd (putLogEvents remote p s)) = received s @ [p]"
  by (simp add: remote_def store_putLogEvents_def Let_def split: option.splits)

lemma enviar_store:
  "buildParams env st message = Inr params \<Longrightarrow>
   snd (snd (enviarLogCloudWatch cw env message (st, s))) = snd (putLogEvents cw params s)"
  by (simp add: enviarLogCloudWatch_def Let_def split: prod.splits sum.splits)

lemma put_brandNew:
  assumes "brandNew env s" and "sequenceToken st = JNull"
      and "buildParams env st message = Inr params"
  shows "\<exists>s'. putLogEvents remote params s = (Inr \<lparr>nextSequenceToken = JStr (decimal 1)\<rparr>, s')
            \<and> deliveredTo env s' = deliveredTo env s @ params_logEvents params"
  using assms buildParams_Inr [of env st message params]
  by (auto simp: brandNew_def findStream_def remote_def store_putLogEvents_def
                 deliveredTo_def expectedToken_def Let_def update_conv'
           split: option.splits)

lemma spread_map_of:
  "map_of (spread ps extra) = map_of ps ++ map_of (rev (ownProps extra))"
proof -
  have "map_of (foldl (\<lambda>acc (k, v). setProp acc k v) ps qs) = map_of ps ++ map_of (rev qs)"
    for qs ps
  proof (induction qs arbitrary: ps)
    case Nil
    then show ?case by simp
  next
    case (Cons q qs)
    obtain k v where q: "q = (k, v)" by (cases q)
    have "map_of (foldl (\<lambda>acc (k, v). setProp acc k v) ps (q # qs))
            = map_of (AList.update k v ps) ++ map_of (rev qs)"
      using Cons.IH [of "AList.update k v ps"] by (simp add: q setProp_def)
    also have "\<dots> = map_of ps ++ map_of (rev (q # qs))"
      by (simp add: q update_conv' map_add_upd_left)
    finally show ?case .
  qed
  then show ?thesis by (simp add: spread_def)
qed

lemma field_JObj: "field (JObj ps) k = (case map_of ps k of Some x \<Rightarrow> x | None \<Rightarrow> JUndefined)"
  by (simp add: field_def split: option.splits)

lemma field_gerarLog:
  "field (gerarLog level message rota extra) k
     = (case map_of (rev (ownProps extra)) k of
          Some v \<Rightarrow> v
        | None \<Rightarrow> field (JObj [(''level'', level), (''message'', message), (''route'', rota)]) k)"
  by (simp add: gerarLog_def field_JObj spread_map_of map_add_def split: option.splits)

lemma field_assign_other:
  "k \<noteq> k' \<Longrightarrow> field (assignProp (gerarLog level message rota extra) k' v) k
     = field (gerarLog level message rota extra) k"
  by (simp add: gerarLog_def field_JObj setProp_def update_conv')

lemma field_logError_log:
  "k \<noteq> ''error'' \<Longrightarrow>
   field (logError_log message req error extra) k
     = field (gerarLog (JStr ''error'') message (logError_url req) (defaultObj extra)) k"
  by (simp add: logError_log_def Let_def field_assign_other)

lemma logError_log_obj: "\<exists>ps. logError_log message req error extra = JObj ps"
  by (simp add: logError_log_def Let_def gerarLog_def)

lemma logError_outcome:
  "fst (logError cw env message req error extra w)
     = (case JSON_stringify env (logError_log message req error extra) of
          Inl err \<Rightarrow> Inl err
        | Inr text \<Rightarrow> Inr ())"
  by (simp add: logError_def enviarLogCloudWatch_def buildParams_def Let_def
           split: prod.splits sum.splits)









subsection \<open>Failed appends\<close>

text \<open>
  C1, as the claim states it, fails. The store of \<^const>\<open>storeStale\<close> expects the token
  \<^verbatim>\<open>"2"\<close> and the module holds \<^verbatim>\<open>"1"\<close>: the store reports the mismatch, and after the
  call the module still holds \<^verbatim>\<open>"1"\<close>, not \<^verbatim>\<open>null\<close>, and the store has received one
  request, not two.
\<close>

theorem enviarLogCloudWatch_mismatch_counterexample:
  "buildParams env0 held (JObj []) = Inr (request0 held)
   \<and> fst (putLogEvents remote (request0 held) storeStale)
     = Inl (AwsError ''InvalidSequenceTokenException'')
   \<and> sequenceToken (fst (snd (enviarLogCloudWatch remote env0 (JObj []) (held, storeStale))))
     = JStr ''1''
   \<and> length (received (snd (snd (enviarLogCloudWatch remote env0 (JObj []) (held, storeStale)))))
     = 1"
  by code_simp

text \<open>
  C1, amended: when the remote store rejects the append (a token mismatch or any other
  error), the in-memory sequence token is left as it was, and the append is not retried:
  the store is left in the state it reached on that one request.
\<close>

theorem enviarLogCloudWatch_failure_keeps_token:
  assumes "buildParams env st message = Inr params"
      and "putLogEvents cw params s = (Inl err, s')"
  shows "sequenceToken (fst (snd (enviarLogCloudWatch cw env message (st, s)))) = sequenceToken st
       \<and> snd (snd (enviarLogCloudWatch cw env message (st, s))) = s'"
  using enviar_Inl [OF assms] by simp

theorem enviarLogCloudWatch_failure_keeps_token_witness:
  "buildParams env0 held (JObj []) = Inr (request0 held)
   \<and> putLogEvents remote (request0 held) storeStale
     = (Inl (AwsError ''InvalidSequenceTokenException''),
        storeStale\<lparr>received := [request0 held]\<rparr>)
   \<and> sequenceToken (fst (snd (enviarLogCloudWatch remote env0 (JObj []) (held, storeStale))))
     = JStr ''1''
   \<and> snd (snd (enviarLogCloudWatch remote env0 (JObj []) (held, storeStale)))
     = storeStale\<lparr>received := [request0 held]\<rparr>"
proof -
  have b: "buildParams env0 held (JObj []) = Inr (request0 held)" by code_simp
  have h: "putLogEvents remote (request0 held) storeStale
     = (Inl (AwsError ''InvalidSequenceTokenException''),
        storeStale\<lparr>received := [request0 held]\<rparr>)"
    by code_simp
  show ?thesis
    using b h enviarLogCloudWatch_failure_keeps_token [OF b h] by (simp add: held_def)
qed

text \<open>
  C2: when the remote store rejects the append, the call resolves (no exception reaches
  the caller), the in-memory sequence token is unchanged, nothing but that one request
  reaches the store, and the request of the following append call carries the same token
  again; this for any client and any store. At a store that follows the spec's rule, a
  stale token is rejected, the store delivers nothing (its groups and streams are as
  before), and the two requests it has received are the one of this call and the one of
  the next.
\<close>

theorem enviarLogCloudWatch_stale_rejected:
  "(buildParams env st message = Inr params
      \<and> fst (putLogEvents cw params s) = Inl err \<longrightarrow>
      fst (enviarLogCloudWatch cw env message (st, s)) = Inr ()
      \<and> sequenceToken (fst (snd (enviarLogCloudWatch cw env message (st, s)))) = sequenceToken st
      \<and> snd (snd (enviarLogCloudWatch cw env message (st, s))) = snd (putLogEvents cw params s)
      \<and> (\<forall>params2.
           buildParams env (fst (snd (enviarLogCloudWatch cw env message (st, s)))) message2
             = Inr params2 \<longrightarrow>
           params_sequenceToken params2 = sequenceToken st))
   \<and> (stale env st s0 \<and> buildParams env st message = Inr params \<longrightarrow>
      fst (putLogEvents remote params s0) = Inl (AwsError ''InvalidSequenceTokenException'')
      \<and> groups (snd (snd (enviarLogCloudWatch remote env message (st, s0)))) = groups s0
      \<and> (\<forall>params2.
           buildParams env (fst (snd (enviarLogCloudWatch remote env message (st, s0)))) message2
             = Inr params2 \<longrightarrow>
           received (snd (snd (enviarLogCloudWatch remote env message2
              (snd (enviarLogCloudWatch remote env message (st, s0))))))
             = received s0 @ [params, params2]))"
proof -
  have generic: "fst (enviarLogCloudWatch cw env message (st, s)) = Inr ()
      \<and> sequenceToken (fst (snd (enviarLogCloudWatch cw env message (st, s)))) = sequenceToken st
      \<and> snd (snd (enviarLogCloudWatch cw env message (st, s))) = snd (putLogEvents cw params s)
      \<and> (\<forall>params2.
           buildParams env (fst (snd (enviarLogCloudWatch cw env message (st, s)))) message2
             = Inr params2 \<longrightarrow>
           params_sequenceToken params2 = sequenceToken st)"
    if b: "buildParams env st message = Inr params"
      and r: "fst (putLogEvents cw params s) = Inl err"
  proof -
    from r have p: "putLogEvents cw params s = (Inl err, snd (putLogEvents cw params s))"
      by (metis prod.collapse)
    show ?thesis
      using enviar_Inl [OF b p] buildParams_Inr by fastforce
  qed
  have store: "fst (putLogEvents remote params s0) = Inl (AwsError ''InvalidSequenceTokenException'')
      \<and> groups (snd (snd (enviarLogCloudWatch remote env message (st, s0)))) = groups s0
      \<and> (\<forall>params2.
           buildParams env (fst (snd (enviarLogCloudWatch remote env message (st, s0)))) message2
             = Inr params2 \<longrightarrow>
           received (snd (snd (enviarLogCloudWatch remote env message2
              (snd (enviarLogCloudWatch remote env message (st, s0))))))
             = received s0 @ [params, params2])"
    if h: "stale env st s0" and b: "buildParams env st message = Inr params"
  proof -
    let ?st' = "st\<lparr>console := console st @
           [ConsoleLog (''Enviando log '' @ toISOString env (Date_now env (clockReads st))),
            ConsoleError ''Erro ao enviar log:'' (AwsError ''InvalidSequenceTokenException'')],
         clockReads := clockReads st + 2\<rparr>"
    let ?s' = "s0\<lparr>received := received s0 @ [params]\<rparr>"
    have one: "enviarLogCloudWatch remote env message (st, s0) = (Inr (), ?st', ?s')"
      using enviar_Inl [OF b put_stale [OF h b]] .
    have again: "stale env ?st' ?s'"
      using h by simp
    have two: "snd (snd (enviarLogCloudWatch remote env message2 (?st', ?s')))
        = ?s'\<lparr>received := received ?s' @ [params2]\<rparr>"
      if b2: "buildParams env ?st' message2 = Inr params2" for params2
      using enviar_Inl [OF b2 put_stale [OF again b2]] by simp
    show ?thesis
      unfolding one using two put_stale [OF h b] by simp
  qed
  show ?thesis using generic store by blast
qed

theorem enviarLogCloudWatch_stale_rejected_witness:
  "stale env0 held storeStale
   \<and> buildParams env0 held (JObj []) = Inr (request0 held)
   \<and> fst (putLogEvents remote (request0 held) storeStale)
     = Inl (AwsError ''InvalidSequenceTokenException'')
   \<and> fst (enviarLogCloudWatch remote env0 (JObj []) (held, storeStale)) = Inr ()
   \<and> sequenceToken (fst (snd (enviarLogCloudWatch remote env0 (JObj []) (held, storeStale))))
     = JStr ''1''
   \<and> groups (snd (snd (enviarLogCloudWatch remote env0 (JObj []) (held, storeStale))))
     = groups storeStale"
proof -
  have h1: "fst (putLogEvents remote (request0 held) storeStale)
     = Inl (AwsError ''InvalidSequenceTokenException'')" by code_simp
  have h2: "stale env0 held storeStale" by code_simp
  have b: "buildParams env0 held (JObj []) = Inr (request0 held)" by code_simp
  have t: "sequenceToken held = JStr ''1''" by (simp add: held_def)
  from h1 h2 b
    enviarLogCloudWatch_stale_rejected [of env0 held "JObj []" "request0 held" remote storeStale
           "AwsError ''InvalidSequenceTokenException''" "JObj []" storeStale]
  have "fst (enviarLogCloudWatch remote env0 (JObj []) (held, storeStale)) = Inr ()
      \<and> sequenceToken (fst (snd (enviarLogCloudWatch remote env0 (JObj []) (held, storeStale))))
          = sequenceToken held
      \<and> groups (snd (snd (enviarLogCloudWatch remote env0 (JObj []) (held, storeStale))))
          = groups storeStale"
    by blast
  with h1 h2 b t show ?thesis by simp
qed

subsection \<open>Accepted appends\<close>

text \<open>
  C5: when the remote store accepts the append, the in-memory sequence token after the
  call is the next-sequence-token of the store's response, as the response carries it.
\<close>

theorem enviarLogCloudWatch_accepted_stores_token:
  assumes "buildParams env st message = Inr params"
      and "putLogEvents cw params s = (Inr response, s')"
  shows "sequenceToken (fst (snd (enviarLogCloudWatch cw env message (st, s))))
           = nextSequenceToken response"
  using enviar_Inr [OF assms] by simp

theorem enviarLogCloudWatch_accepted_stores_token_witness:
  "buildParams env0 initial (JObj []) = Inr (request0 initial)
   \<and> putLogEvents remote (request0 initial) storeNew
     = (Inr \<lparr>nextSequenceToken = JStr ''1''\<rparr>,
        \<lparr>groups = [(''api'', [(''app-logs'',
            \<lparr>appends = 1, delivered = params_logEvents (request0 initial)\<rparr>)])],
         received = [request0 initial]\<rparr>)
   \<and> sequenceToken (fst (snd (enviarLogCloudWatch remote env0 (JObj []) (initial, storeNew))))
     = JStr ''1''"
proof -
  have b: "buildParams env0 initial (JObj []) = Inr (request0 initial)" by code_simp
  have h: "putLogEvents remote (request0 initial) storeNew
     = (Inr \<lparr>nextSequenceToken = JStr ''1''\<rparr>,
        \<lparr>groups = [(''api'', [(''app-logs'',
            \<lparr>appends = 1, delivered = params_logEvents (request0 initial)\<rparr>)])],
         received = [request0 initial]\<rparr>)"
    by code_simp
  show ?thesis
    using b h enviarLogCloudWatch_accepted_stores_token [OF b h] by simp
qed

text \<open>
  C6: an event that can be serialised gives a request; the request that
  \<^verbatim>\<open>enviarLogCloudWatch\<close> sends carries exactly one event, and it is the one request
  the store receives in the call; when the in-memory token is \<^verbatim>\<open>null\<close> the request's
  token is \<^verbatim>\<open>null\<close>, that is, no token (the SDK leaves a \<^verbatim>\<open>null\<close> member out of the
  request); and the first append to a stream that was never appended to is accepted by
  the store, the event is delivered, and the module holds the token that the store
  returned.
\<close>

theorem enviarLogCloudWatch_single_event_first_append:
  "(serialisable message \<longrightarrow> (\<exists>params. buildParams env st message = Inr params))
   \<and> (buildParams env st message = Inr params \<longrightarrow>
        length (params_logEvents params) = 1
        \<and> received (snd (snd (enviarLogCloudWatch remote env message (st, s))))
            = received s @ [params]
        \<and> (sequenceToken st = JNull \<longrightarrow> params_sequenceToken params = JNull)
        \<and> (sequenceToken st = JNull \<and> brandNew env s \<longrightarrow>
             (\<exists>t. fst (putLogEvents remote params s) = Inr \<lparr>nextSequenceToken = JStr t\<rparr>
                \<and> sequenceToken (fst (snd (enviarLogCloudWatch remote env message (st, s))))
                    = JStr t
                \<and> deliveredTo env (snd (snd (enviarLogCloudWatch remote env message (st, s))))
                    = deliveredTo env s @ params_logEvents params)))"
proof -
  have built: "serialisable message \<longrightarrow> (\<exists>params. buildParams env st message = Inr params)"
    using buildParams_serialisable [of env st message] by simp
  have rest: "length (params_logEvents params) = 1
        \<and> received (snd (snd (enviarLogCloudWatch remote env message (st, s))))
            = received s @ [params]
        \<and> (sequenceToken st = JNull \<longrightarrow> params_sequenceToken params = JNull)
        \<and> (sequenceToken st = JNull \<and> brandNew env s \<longrightarrow>
             (\<exists>t. fst (putLogEvents remote params s) = Inr \<lparr>nextSequenceToken = JStr t\<rparr>
                \<and> sequenceToken (fst (snd (enviarLogCloudWatch remote env message (st, s))))
                    = JStr t
                \<and> deliveredTo env (snd (snd (enviarLogCloudWatch remote env message (st, s))))
                    = deliveredTo env s @ params_logEvents params))"
    if b: "buildParams env st message = Inr params"
  proof -
    have one: "length (params_logEvents params) = 1"
      using buildParams_Inr [OF b] by simp
    have sent: "received (snd (snd (enviarLogCloudWatch remote env message (st, s))))
            = received s @ [params]"
      by (simp only: enviar_store [OF b] put_records)
    have tok: "sequenceToken st = JNull \<longrightarrow> params_sequenceToken params = JNull"
      using buildParams_Inr [OF b] by simp
    have first: "\<exists>t. fst (putLogEvents remote params s) = Inr \<lparr>nextSequenceToken = JStr t\<rparr>
                \<and> sequenceToken (fst (snd (enviarLogCloudWatch remote env message (st, s))))
                    = JStr t
                \<and> deliveredTo env (snd (snd (enviarLogCloudWatch remote env message (st, s))))
                    = deliveredTo env s @ params_logEvents params"
      if n: "sequenceToken st = JNull" and bn: "brandNew env s"
    proof -
      from put_brandNew [OF bn n b] obtain s' where
        p: "putLogEvents remote params s = (Inr \<lparr>nextSequenceToken = JStr (decimal 1)\<rparr>, s')"
        and d: "deliveredTo env s' = deliveredTo env s @ params_logEvents params"
        by blast
      show ?thesis
        using enviar_Inr [OF b p] p d by simp
    qed
    show ?thesis using one sent tok first by blast
  qed
  show ?thesis using built rest by blast
qed

text \<open>
  The run behind the witness: provisioning against a store with no group and no stream
  creates both and leaves the token \<^verbatim>\<open>null\<close>; the append of \<^verbatim>\<open>{message: "x"}\<close> that
  follows presents no token, is accepted, and the module holds the returned \<^verbatim>\<open>"1"\<close>.
\<close>

theorem enviarLogCloudWatch_single_event_first_append_witness:
  "serialisable (JObj [(''message'', JStr ''x'')])
   \<and> buildParams env0 initial (JObj [(''message'', JStr ''x'')]) = Inr (request0 initial)
   \<and> sequenceToken initial = JNull \<and> brandNew env0 storeNew
   \<and> ensureCloudWatchSetup remote env0 (initial, \<lparr>groups = [], received = []\<rparr>) = (initial, storeNew)
   \<and> params_sequenceToken (request0 initial) = JNull
   \<and> fst (putLogEvents remote (request0 initial) storeNew) = Inr \<lparr>nextSequenceToken = JStr ''1''\<rparr>
   \<and> sequenceToken (fst (snd (enviarLogCloudWatch remote env0 (JObj [(''message'', JStr ''x'')])
                                  (initial, storeNew)))) = JStr ''1''"
proof -
  have h0: "serialisable (JObj [(''message'', JStr ''x'')])" by simp
  have b: "buildParams env0 initial (JObj [(''message'', JStr ''x'')]) = Inr (request0 initial)"
    by code_simp
  have h1: "sequenceToken initial = JNull" by (simp add: initial_def)
  have h2: "brandNew env0 storeNew" by code_simp
  have h3: "ensureCloudWatchSetup remote env0 (initial, \<lparr>groups = [], received = []\<rparr>)
              = (initial, storeNew)"
    by code_simp
  have h4: "fst (putLogEvents remote (request0 initial) storeNew)
              = Inr \<lparr>nextSequenceToken = JStr ''1''\<rparr>"
    by code_simp
  show ?thesis
    using h0 b h1 h2 h3 h4
      enviarLogCloudWatch_single_event_first_append [of "JObj [(''message'', JStr ''x'')]" env0 initial "request0 initial" storeNew]
    by auto
qed

subsection \<open>Provisioning\<close>

text \<open>
  C4 at the store of \<^const>\<open>storeOther\<close>: no stream named \<^verbatim>\<open>app-logs\<close> exists, and the
  describe request, which filters by prefix, returns \<^verbatim>\<open>app-logs-2\<close>. Provisioning tests
  only whether the returned list is empty: it creates no stream (the store is unchanged)
  and takes the token of \<^verbatim>\<open>app-logs-2\<close> as the module's token. The appends that follow
  are rejected, since their stream does not exist.
\<close>

theorem ensureCloudWatchSetup_prefix_match_skips_creation:
  "findStream storeOther (LOG_GROUP_NAME env0) (LOG_STREAM_NAME env0) = None
   \<and> ensureCloudWatchSetup remote env0 (initial, storeOther) = (held, storeOther)
   \<and> buildParams env0 held (JObj []) = Inr (request0 held)
   \<and> fst (putLogEvents remote (request0 held) storeOther)
     = Inl (AwsError ''ResourceNotFoundException'')"
  by code_simp

subsection \<open>Event construction\<close>

text \<open>
  C7 on the code: \<^verbatim>\<open>logInfo\<close> called with a \<^verbatim>\<open>null\<close> request context reads
  \<^verbatim>\<open>req.originalUrl\<close> of \<^verbatim>\<open>null\<close>; its promise is rejected with a \<^verbatim>\<open>TypeError\<close>, no event
  is built and nothing is sent.
\<close>

theorem logInfo_null_context_rejects:
  "logInfo cw env message JNull extra w =
     (Inl (TypeError ''Cannot read properties of null (reading 'originalUrl')''), w)"
  by (simp add: logInfo_def logInfo_log_def)

text \<open>
  C3, as the claim states it, fails: the spread \<^verbatim>\<open>...extra\<close> comes last in the object
  literal of \<^verbatim>\<open>gerarLog\<close>, so a key of \<^verbatim>\<open>extra\<close> replaces a field written before it.
  Here \<^verbatim>\<open>logError\<close> emits the level \<^verbatim>\<open>"debug"\<close>, and \<^verbatim>\<open>logInfo("ok", req, extra)\<close>
  with the route \<^verbatim>\<open>/users\<close> emits the message and the route of \<^verbatim>\<open>extra\<close>.
\<close>

theorem gerarLog_extra_overwrites_counterexample:
  "field (logError_log (JStr ''boom'') JNull JUndefined (JObj [(''level'', JStr ''debug'')]))
         ''level''
     = JStr ''debug''
   \<and> logInfo_log (JStr ''ok'') (JObj [(''originalUrl'', JStr ''/users'')])
        (JObj [(''message'', JStr ''other''), (''route'', JStr ''/elsewhere'')])
     = Inr (JObj [(''level'', JStr ''info''), (''message'', JStr ''other''),
                  (''route'', JStr ''/elsewhere'')])"
  by code_simp

text \<open>
  C3, amended: in the emitted event, each of the fields level, message and route holds
  the value that the extra fields give under that key when they have such a key (the
  value of their last entry for it, which for an object is its one entry), and the value
  that the call determines (the level constant, the message argument, the extracted
  route) when they have none; for \<^verbatim>\<open>logInfo\<close> whenever it builds an event, for
  \<^verbatim>\<open>logError\<close> always.
\<close>

theorem reserved_fields_after_merge:
  assumes "k \<in> {''level'', ''message'', ''route''}"
  shows "(\<forall>ev. logInfo_log message req extra = Inr ev \<longrightarrow>
            field ev k =
              (case map_of (rev (ownProps (defaultObj extra))) k of
                 Some v \<Rightarrow> v
               | None \<Rightarrow> field (JObj [(''level'', JStr ''info''), (''message'', message),
                                       (''route'', lookupProp req ''originalUrl'')]) k))
       \<and> field (logError_log message req error extra) k =
              (case map_of (rev (ownProps (defaultObj extra))) k of
                 Some v \<Rightarrow> v
               | None \<Rightarrow> field (JObj [(''level'', JStr ''error''), (''message'', message),
                                       (''route'', logError_url req)]) k)"
proof -
  have ne: "k \<noteq> ''error''" using assms by auto
  have info: "field ev k =
              (case map_of (rev (ownProps (defaultObj extra))) k of
                 Some v \<Rightarrow> v
               | None \<Rightarrow> field (JObj [(''level'', JStr ''info''), (''message'', message),
                                       (''route'', lookupProp req ''originalUrl'')]) k)"
    if "logInfo_log message req extra = Inr ev" for ev
  proof -
    from that have "ev = gerarLog (JStr ''info'') message (lookupProp req ''originalUrl'')
                           (defaultObj extra)"
      by (cases req) (auto simp: logInfo_log_def)
    then show ?thesis by (simp only: field_gerarLog)
  qed
  have err: "field (logError_log message req error extra) k =
              (case map_of (rev (ownProps (defaultObj extra))) k of
                 Some v \<Rightarrow> v
               | None \<Rightarrow> field (JObj [(''level'', JStr ''error''), (''message'', message),
                                       (''route'', logError_url req)]) k)"
    by (simp only: field_logError_log [OF ne] field_gerarLog)
  show ?thesis using info err by blast
qed

theorem reserved_fields_after_merge_witness:
  "''level'' \<in> {''level'', ''message'', ''route''}
   \<and> logInfo_log (JStr ''ok'') (JObj [(''originalUrl'', JStr ''/users'')]) (JObj [(''total'', JNum 3)])
       = Inr (JObj [(''level'', JStr ''info''), (''message'', JStr ''ok''),
                    (''route'', JStr ''/users''), (''total'', JNum 3)])
   \<and> field (JObj [(''level'', JStr ''info''), (''message'', JStr ''ok''),
                    (''route'', JStr ''/users''), (''total'', JNum 3)]) ''level'' = JStr ''info''
   \<and> field (logError_log (JStr ''ok'') (JObj [(''originalUrl'', JStr ''/users'')]) JUndefined
              (JObj [(''total'', JNum 3)])) ''level'' = JStr ''error''"
proof -
  have h1: "''level'' \<in> {''level'', ''message'', ''route''}" by simp
  have h3: "logInfo_log (JStr ''ok'') (JObj [(''originalUrl'', JStr ''/users'')])
              (JObj [(''total'', JNum 3)])
       = Inr (JObj [(''level'', JStr ''info''), (''message'', JStr ''ok''),
                    (''route'', JStr ''/users''), (''total'', JNum 3)])"
    by code_simp
  show ?thesis
    using h1 h3
      reserved_fields_after_merge [OF h1, of "JStr ''ok''" "JObj [(''originalUrl'', JStr ''/users'')]"
                    "JObj [(''total'', JNum 3)]" JUndefined]
    by (simp add: field_JObj)
qed

text \<open>
  C8, as the claim states it, fails twice over. With a \<^verbatim>\<open>null\<close> context and
  \<^verbatim>\<open>extra = {route: "/x"}\<close> the emitted route is \<^verbatim>\<open>"/x"\<close>, not the empty string. And
  with a \<^verbatim>\<open>null\<close> context and the error detail \<^verbatim>\<open>10n\<close>, \<^verbatim>\<open>JSON.stringify\<close> throws on
  the event and \<^verbatim>\<open>logError\<close> fails.
\<close>

theorem logError_null_context_counterexample:
  "field (logError_log (JStr ''boom'') JNull JUndefined (JObj [(''route'', JStr ''/x'')])) ''route''
     = JStr ''/x''
   \<and> fst (logError remote env0 (JStr ''boom'') JNull (JBigInt 10) JUndefined (initial, storeNew))
     = Inl (TypeError ''Do not know how to serialize a BigInt'')"
  by code_simp

text \<open>
  C8, amended: every call to \<^verbatim>\<open>logError\<close> with a \<^verbatim>\<open>null\<close> request context builds an
  event object; the route field of that event is the route that the extra fields give
  when they have a key named route, and the empty string when they have none; and the
  call fails exactly when \<^verbatim>\<open>JSON.stringify\<close> throws on the event, with that exception,
  and resolves otherwise.
\<close>

theorem logError_null_context_event:
  "(\<exists>ps. logError_log message JNull error extra = JObj ps)
   \<and> field (logError_log message JNull error extra) ''route''
       = (case map_of (rev (ownProps (defaultObj extra))) ''route'' of
            Some v \<Rightarrow> v
          | None \<Rightarrow> JStr [])
   \<and> fst (logError cw env message JNull error extra w)
       = (case JSON_stringify env (logError_log message JNull error extra) of
            Inl err \<Rightarrow> Inl err
          | Inr text \<Rightarrow> Inr ())"
proof -
  have "field (logError_log message JNull error extra) ''route''
       = (case map_of (rev (ownProps (defaultObj extra))) ''route'' of
            Some v \<Rightarrow> v
          | None \<Rightarrow> JStr [])"
    using field_logError_log [of "''route''" message JNull error extra]
    by (simp add: field_gerarLog field_JObj logError_url_def split: option.splits)
  then show ?thesis
    using logError_outcome [of cw env message JNull error extra w] logError_log_obj by blast
qed

text \<open>The call of \<^verbatim>\<open>server.js\<close> made when the database connection fails.\<close>

theorem logError_null_context_event_witness:
  "logError_log (JStr ''Erro ao logar mongodb'') JNull (JStr ''timeout'') JUndefined
     = JObj [(''level'', JStr ''error''), (''message'', JStr ''Erro ao logar mongodb''),
             (''route'', JStr []), (''error'', JObj [(''error'', JStr ''timeout'')])]
   \<and> field (logError_log (JStr ''Erro ao logar mongodb'') JNull (JStr ''timeout'') JUndefined)
        ''route'' = JStr []
   \<and> fst (logError remote env0 (JStr ''Erro ao logar mongodb'') JNull (JStr ''timeout'') JUndefined
             (initial, storeNew)) = Inr ()"
proof -
  have e: "logError_log (JStr ''Erro ao logar mongodb'') JNull (JStr ''timeout'') JUndefined
     = JObj [(''level'', JStr ''error''), (''message'', JStr ''Erro ao logar mongodb''),
             (''route'', JStr []), (''error'', JObj [(''error'', JStr ''timeout'')])]"
    by code_simp
  have s: "JSON_stringify env0
             (JObj [(''level'', JStr ''error''), (''message'', JStr ''Erro ao logar mongodb''),
                    (''route'', JStr []), (''error'', JObj [(''error'', JStr ''timeout'')])])
           = Inr ''{}''"
    by code_simp
  show ?thesis
    using e s
      logError_null_context_event [of "JStr ''Erro ao logar mongodb''" "JStr ''timeout''" JUndefined remote env0
             "(initial, storeNew)"]
    by simp
qed

text \<open>
  C10, as the claim states it, fails in each of its three parts. With an \<^verbatim>\<open>undefined\<close>
  context and \<^verbatim>\<open>extra = {route: ""}\<close> the emitted route is the empty string; with an
  \<^verbatim>\<open>undefined\<close> context and the error detail \<^verbatim>\<open>10n\<close> the call throws; and the context
  \<^verbatim>\<open>{originalUrl: ""}\<close>, which is not \<^verbatim>\<open>null\<close>, gives the empty route as well.
\<close>

theorem logError_undefined_context_counterexample:
  "field (logError_log (JStr ''boom'') JUndefined JUndefined (JObj [(''route'', JStr [])])) ''route''
     = JStr []
   \<and> fst (logError remote env0 (JStr ''boom'') JUndefined (JBigInt 10) JUndefined (initial, storeNew))
     = Inl (TypeError ''Do not know how to serialize a BigInt'')
   \<and> logError_url (JObj [(''originalUrl'', JStr [])]) = JStr []"
  by code_simp

text \<open>
  C10, amended: for every call to \<^verbatim>\<open>logError\<close> whose request context is
  \<^verbatim>\<open>undefined\<close>, the route field of the event is the route that the extra fields give
  when they have a key named route and \<^verbatim>\<open>undefined\<close>, not the empty string, when they
  have none; the call fails exactly when \<^verbatim>\<open>JSON.stringify\<close> throws on the event and
  resolves otherwise; and the route that \<^verbatim>\<open>logError\<close> extracts is the empty string for
  the context \<^verbatim>\<open>null\<close>, \<^verbatim>\<open>undefined\<close> for the context \<^verbatim>\<open>undefined\<close>, and the
  context's own \<^verbatim>\<open>originalUrl\<close> for every other context.
\<close>

theorem logError_undefined_context_event:
  "field (logError_log message JUndefined error extra) ''route''
       = (case map_of (rev (ownProps (defaultObj extra))) ''route'' of
            Some v \<Rightarrow> v
          | None \<Rightarrow> JUndefined)
   \<and> fst (logError cw env message JUndefined error extra w)
       = (case JSON_stringify env (logError_log message JUndefined error extra) of
            Inl err \<Rightarrow> Inl err
          | Inr text \<Rightarrow> Inr ())
   \<and> logError_url req
       = (if req = JNull then JStr []
          else if req = JUndefined then JUndefined
          else lookupProp req ''originalUrl'')"
proof -
  have r: "field (logError_log message JUndefined error extra) ''route''
       = (case map_of (rev (ownProps (defaultObj extra))) ''route'' of
            Some v \<Rightarrow> v
          | None \<Rightarrow> JUndefined)"
    using field_logError_log [of "''route''" message JUndefined error extra]
    by (simp add: field_gerarLog field_JObj logError_url_def split: option.splits)
  have u: "logError_url req
       = (if req = JNull then JStr []
          else if req = JUndefined then JUndefined
          else lookupProp req ''originalUrl'')"
    by (cases req) (simp_all add: logError_url_def)
  show ?thesis
    using r u logError_outcome [of cw env message JUndefined error extra w] by blast
qed

theorem logError_undefined_context_event_witness:
  "logError_log (JStr ''boom'') JUndefined JUndefined JUndefined
     = JObj [(''level'', JStr ''error''), (''message'', JStr ''boom''),
             (''route'', JUndefined), (''error'', JObj [(''error'', JObj [])])]
   \<and> field (logError_log (JStr ''boom'') JUndefined JUndefined JUndefined) ''route'' = JUndefined
   \<and> fst (logError remote env0 (JStr ''boom'') JUndefined JUndefined JUndefined
             (initial, storeNew)) = Inr ()
   \<and> logError_url (JObj [(''originalUrl'', JStr ''/users'')]) = JStr ''/users''"
proof -
  have e: "logError_log (JStr ''boom'') JUndefined JUndefined JUndefined
     = JObj [(''level'', JStr ''error''), (''message'', JStr ''boom''),
             (''route'', JUndefined), (''error'', JObj [(''error'', JObj [])])]"
    by code_simp
  have s: "JSON_stringify env0
             (JObj [(''level'', JStr ''error''), (''message'', JStr ''boom''),
                    (''route'', JUndefined), (''error'', JObj [(''error'', JObj [])])])
           = Inr ''{}''"
    by code_simp
  show ?thesis
    using e s
      logError_undefined_context_event [of "JStr ''boom''" JUndefined JUndefined remote env0 "(initial, storeNew)"
              "JObj [(''originalUrl'', JStr ''/users'')]"]
    by simp
qed

subsection \<open>The token over the life of the process\<close>




end
